theory Spec2Isabelle
  imports Complex_Main
begin

section \<open>Types and constants\<close>

text \<open>
  The program is a single TypeScript module. Its numbers are JavaScript numbers (IEEE
  doubles). Positions and layout are modelled with mathematical reals, without rounding.
  The gesture classifier decides by comparing computed distances, where a rounded result
  can fall on the other side of a threshold; there the arithmetic is a parameter, so that
  what is proved holds for rounded and unrounded arithmetic alike.
  \<open>Math.random()\<close> is modelled by passing the drawn values in explicitly.
\<close>

datatype AppMode = TREE | SCATTER | INSPECT

datatype Gesture = FIST | OPEN | PINCH | NONE

record Point2 =
  pt_x :: real
  pt_y :: real

record HandGestureState =
  isHandDetected :: bool
  gesture :: Gesture
  handPosition :: Point2

definition TREE_HEIGHT :: real where
  "TREE_HEIGHT = 18"

definition TREE_RADIUS :: real where
  "TREE_RADIUS = 7.5"

section \<open>Library operations used by the program\<close>

text \<open>
  \<open>THREE.Vector3\<close> and \<open>THREE.Color\<close> with the operations the program calls, after the
  library's documentation: \<open>multiplyScalar\<close> scales every component, \<open>lerp(v, alpha)\<close>
  adds \<open>(v - this) * alpha\<close> to every component, \<open>distanceTo\<close> is the Euclidean distance.
  A mutated vector is returned as the new value.
\<close>

record Vector3 =
  vx :: real
  vy :: real
  vz :: real

definition vec3 :: "real \<Rightarrow> real \<Rightarrow> real \<Rightarrow> Vector3" where
  "vec3 a b c = \<lparr>vx = a, vy = b, vz = c\<rparr>"

definition multiplyScalar :: "Vector3 \<Rightarrow> real \<Rightarrow> Vector3" where
  "multiplyScalar v k = vec3 (vx v * k) (vy v * k) (vz v * k)"

definition lerp :: "Vector3 \<Rightarrow> Vector3 \<Rightarrow> real \<Rightarrow> Vector3" where
  "lerp this v alpha =
     vec3 (vx this + (vx v - vx this) * alpha)
          (vy this + (vy v - vy this) * alpha)
          (vz this + (vz v - vz this) * alpha)"


record Color =
  red :: real
  green :: real
  blue :: real

definition lerpColors :: "Color \<Rightarrow> Color \<Rightarrow> real \<Rightarrow> Color" where
  "lerpColors c1 c2 alpha =
     \<lparr>red = red c1 + (red c2 - red c1) * alpha,
      green = green c1 + (green c2 - green c1) * alpha,
      blue = blue c1 + (blue c2 - blue c1) * alpha\<rparr>"

definition color_lerp :: "Color \<Rightarrow> Color \<Rightarrow> real \<Rightarrow> Color" where
  "color_lerp this c alpha = lerpColors this c alpha"

definition color_multiplyScalar :: "Color \<Rightarrow> real \<Rightarrow> Color" where
  "color_multiplyScalar c k = \<lparr>red = red c * k, green = green c * k, blue = blue c * k\<rparr>"

definition hypot :: "real \<Rightarrow> real \<Rightarrow> real" where
  "hypot a b = sqrt (a\<^sup>2 + b\<^sup>2)"

text \<open>
  The arithmetic of the gesture code: any implementation of \<open>+\<close>, \<open>-\<close>, \<open>*\<close>,
  \<open>/\<close> and \<open>Math.hypot\<close> on numbers, each returning the number the operation
  yields (for doubles, the rounded result). Comparisons are exact. \<open>exact\<close> is the
  arithmetic without rounding. The literal \<open>1.5\<close> is a double; the literal \<open>0.05\<close>
  denotes the double next to it, and a double is below that double exactly when it is
  below 0.05.
\<close>

record Arith =
  num_add :: "real \<Rightarrow> real \<Rightarrow> real"
  num_sub :: "real \<Rightarrow> real \<Rightarrow> real"
  num_mul :: "real \<Rightarrow> real \<Rightarrow> real"
  num_div :: "real \<Rightarrow> real \<Rightarrow> real"
  num_hypot :: "real \<Rightarrow> real \<Rightarrow> real"

definition exact :: Arith where
  "exact = \<lparr>num_add = (+), num_sub = (-), num_mul = (*), num_div = (/), num_hypot = hypot\<rparr>"

text \<open>
  \<open>THREE.MathUtils.lerp(x, y, t)\<close> is \<open>(1 - t) * x + t * y\<close>.
  \<open>new THREE.Object3D()\<close> gives the object a UUID, for which the library calls
  \<open>Math.random()\<close> four times; the object itself belongs to the renderer.
\<close>

definition MathUtils_lerp :: "real \<Rightarrow> real \<Rightarrow> real \<Rightarrow> real" where
  "MathUtils_lerp a b t = (1 - t) * a + t * b"

text \<open>
  \<open>Math.random()\<close>: the generator is an infinite sequence of draws, each in \<open>[0, 1)\<close>;
  a call returns the head and leaves the tail.
\<close>

type_synonym rng = "nat \<Rightarrow> real"

definition random :: "rng \<Rightarrow> real \<times> rng" where
  "random g = (g 0, \<lambda>n. g (Suc n))"

definition unit_draws :: "rng \<Rightarrow> bool" where
  "unit_draws g = (\<forall>n. 0 \<le> g n \<and> g n < 1)"

definition new_Object3D :: "rng \<Rightarrow> unit \<times> rng" where
  "new_Object3D g =
     (let (d0, g1) = random g;
          (d1, g2) = random g1;
          (d2, g3) = random g2;
          (d3, g4) = random g3
      in ((), g4))"

section \<open>Layout helpers\<close>

record TreeData =
  td_pos :: Vector3
  td_angle :: real
  td_r :: real
  td_radiusAtHeight :: real
  td_yPercent :: real

text \<open>
  \<open>getTreeData(index, total)\<close>; the value of its one \<open>Math.random()\<close> call is the
  first argument. No caller passes \<open>total = 0\<close> (the loops do not run for a count of
  zero, and the photo collection passes \<open>1000 + photos.length\<close>).
\<close>

definition getTreeData :: "real \<Rightarrow> real \<Rightarrow> real \<Rightarrow> TreeData" where
  "getTreeData rnd index total' =
     (let y = (index / total') * TREE_HEIGHT - (TREE_HEIGHT / 2);
          yPercent = (y + TREE_HEIGHT / 2) / TREE_HEIGHT;
          radiusAtHeight = ((TREE_HEIGHT / 2) - y) * (TREE_RADIUS / TREE_HEIGHT);
          r = radiusAtHeight * (rnd powr 0.4);
          angle = index * 2.39996;
          x = cos angle * r;
          z = sin angle * r
      in \<lparr>td_pos = vec3 x y z, td_angle = angle, td_r = r,
          td_radiusAtHeight = radiusAtHeight, td_yPercent = yPercent\<rparr>)"

text \<open>\<open>getScatterPos()\<close>: three draws, in the order x, y, z.\<close>

definition getScatterPos :: "rng \<Rightarrow> Vector3 \<times> rng" where
  "getScatterPos g =
     (let (a, g1) = random g;
          (b, g2) = random g1;
          (c, g3) = random g2
      in (vec3 ((a - 0.5) * 50) ((b - 0.5) * 40) ((c - 0.5) * 30), g3))"

section \<open>Gesture classifier\<close>

record Landmark =
  lm_x :: real
  lm_y :: real
  lm_z :: real

datatype js_error = TypeError | DetectorError

definition isFingerExtended :: "Arith \<Rightarrow> Landmark list \<Rightarrow> nat \<Rightarrow> nat \<Rightarrow> bool" where
  "isFingerExtended ar landmarks tipIdx mcpIdx =
     (let distTip = num_hypot ar (num_sub ar (lm_x (landmarks ! tipIdx)) (lm_x (landmarks ! 0)))
                                 (num_sub ar (lm_y (landmarks ! tipIdx)) (lm_y (landmarks ! 0)));
          distMcp = num_hypot ar (num_sub ar (lm_x (landmarks ! mcpIdx)) (lm_x (landmarks ! 0)))
                                 (num_sub ar (lm_y (landmarks ! mcpIdx)) (lm_y (landmarks ! 0)))
      in distTip > num_mul ar distMcp 1.5)"

text \<open>
  \<open>detectGesture\<close> reads the landmarks at indices 0 to 20. Reading a property of a
  missing array element throws a TypeError, so the function throws exactly when the array
  has fewer than 21 elements; the model returns the error then.
\<close>

definition detectGesture :: "Arith \<Rightarrow> Landmark list \<Rightarrow> js_error + Gesture" where
  "detectGesture ar landmarks =
     (if length landmarks < 21 then Inl TypeError
      else
        let thumbExtended = isFingerExtended ar landmarks 4 2;
            indexExtended = isFingerExtended ar landmarks 8 5;
            middleExtended = isFingerExtended ar landmarks 12 9;
            ringExtended = isFingerExtended ar landmarks 16 13;
            pinkyExtended = isFingerExtended ar landmarks 20 17;
            extendedCount =
              length (filter (\<lambda>b. b)
                [thumbExtended, indexExtended, middleExtended, ringExtended, pinkyExtended]);
            pinchDist = num_hypot ar (num_sub ar (lm_x (landmarks ! 8)) (lm_x (landmarks ! 4)))
                                     (num_sub ar (lm_y (landmarks ! 8)) (lm_y (landmarks ! 4)))
        in Inr (if pinchDist < 0.05 then PINCH
                else if extendedCount = 5 then OPEN
                else if extendedCount = 0 then FIST
                else NONE))"

section \<open>Gesture tracker\<close>

text \<open>
  What \<open>detectForVideo\<close> does on one frame: it throws, or it returns a result whose
  \<open>landmarks\<close> field is absent or a list of hands.
\<close>

datatype DetectorOutcome = Throws | Result "Landmark list list option"

text \<open>
  The state of the prediction loop: the closure variable \<open>lastVideoTime\<close>, the calls of
  \<open>onGestureUpdate\<close> so far (oldest first), the number of \<open>console.warn\<close> calls, and
  whether \<open>requestAnimationFrame(predictWebcam)\<close> has scheduled the next run.
\<close>

record TrackerState =
  lastVideoTime :: real
  emitted :: "HandGestureState list"
  warnings :: nat
  scheduled :: bool

definition tracker_initial :: TrackerState where
  "tracker_initial = \<lparr>lastVideoTime = -1, emitted = [], warnings = 0, scheduled = False\<rparr>"

text \<open>The body of the \<open>try\<close> block: the hand state passed to \<open>onGestureUpdate\<close>, or the exception.\<close>

definition try_body :: "Arith \<Rightarrow> DetectorOutcome \<Rightarrow> js_error + HandGestureState" where
  "try_body ar d =
     (case d of
        Throws \<Rightarrow> Inl DetectorError
      | Result res \<Rightarrow>
          (case res of
             Some (landmarks # others) \<Rightarrow>
               if length landmarks < 10 then Inl TypeError
               else
                 let x = num_div ar (num_add ar (lm_x (landmarks ! 0)) (lm_x (landmarks ! 9))) 2;
                     y = num_div ar (num_add ar (lm_y (landmarks ! 0)) (lm_y (landmarks ! 9))) 2
                 in (case detectGesture ar landmarks of
                       Inl e \<Rightarrow> Inl e
                     | Inr g \<Rightarrow>
                         Inr \<lparr>isHandDetected = True, gesture = g,
                              handPosition = \<lparr>pt_x = num_sub ar 1 x, pt_y = y\<rparr>\<rparr>)
           | _ \<Rightarrow>
               Inr \<lparr>isHandDetected = False, gesture = NONE,
                    handPosition = \<lparr>pt_x = 0.5, pt_y = 0.5\<rparr>\<rparr>))"

text \<open>
  One run of \<open>predictWebcam\<close>. \<open>refs\<close> says whether both refs are set, \<open>currentTime\<close>
  is the video's timestamp, \<open>d\<close> what the detector does if it is called. The result is
  \<open>Inl\<close> when an exception leaves the function.
\<close>

definition predictWebcam ::
  "Arith \<Rightarrow> bool \<Rightarrow> real \<Rightarrow> DetectorOutcome \<Rightarrow> TrackerState \<Rightarrow> js_error + TrackerState"
  where
  "predictWebcam ar refs currentTime d st =
     (if \<not> refs then Inr (st\<lparr>scheduled := False\<rparr>)
      else
        let st2 =
          (if currentTime \<noteq> lastVideoTime st then
             let st1 = st\<lparr>lastVideoTime := currentTime\<rparr>
             in (case try_body ar d of
                   Inr h \<Rightarrow> st1\<lparr>emitted := emitted st1 @ [h]\<rparr>
                 | Inl e \<Rightarrow> st1\<lparr>warnings := warnings st1 + 1\<rparr>)
           else st)
        in Inr (st2\<lparr>scheduled := True\<rparr>))"

text \<open>
  The loop: each animation frame runs \<open>predictWebcam\<close> if the previous run scheduled
  it; the first run is started by the \<open>loadeddata\<close> event.
\<close>

fun tracker_loop ::
  "Arith \<Rightarrow> (bool \<times> real \<times> DetectorOutcome) list \<Rightarrow> TrackerState
     \<Rightarrow> js_error + TrackerState" where
  "tracker_loop ar [] st = Inr st"
| "tracker_loop ar ((refs, t, d) # frames) st =
     (case predictWebcam ar refs t d st of
        Inl e \<Rightarrow> Inl e
      | Inr st' \<Rightarrow> if scheduled st' then tracker_loop ar frames st' else Inr st')"

section \<open>Particle system: foliage\<close>

record Particle =
  initialPos :: Vector3
  treePos :: Vector3
  currentPos :: Vector3
  color :: Color
  phase :: real

record FoliageParticle = Particle +
  scale :: real

text \<open>
  The three base colours are built by the library from hex strings; they are taken as
  parameters.
\<close>

record FoliageColors =
  C_DARK_GREEN :: Color
  C_MID_GREEN :: Color
  C_LITE_GREEN :: Color

definition GLOW_INTENSITY :: real where
  "GLOW_INTENSITY = 4.0"

text \<open>The body of the creation loop for index \<open>i\<close>, with the draws in source order.\<close>

definition foliage_particle :: "FoliageColors \<Rightarrow> nat \<Rightarrow> nat \<Rightarrow> rng \<Rightarrow> FoliageParticle \<times> rng" where
  "foliage_particle cols i count g =
     (let (u0, g1) = random g;
          pos = td_pos (getTreeData u0 (real i) (real count));
          (u1, g2) = random g1;
          baseColor = lerpColors (C_DARK_GREEN cols) (C_LITE_GREEN cols) u1;
          (u2, g3) = random g2;
          baseColor2 = (if u2 > 0.8 then color_lerp baseColor (C_MID_GREEN cols) 0.5 else baseColor);
          hdrColor = color_multiplyScalar baseColor2 GLOW_INTENSITY;
          (sp, g4) = getScatterPos g3;
          (u3, g5) = random g4;
          (u4, g6) = random g5
      in (\<lparr>initialPos = sp, treePos = pos, currentPos = pos, color = hdrColor,
           phase = u4 * pi * 2, scale = 0.08 + u3 * 0.06\<rparr>, g6))"

text \<open>\<open>for (let i = 0; i < count; i++)\<close>: the first numeric argument counts the iterations left.\<close>

fun foliage_loop ::
  "FoliageColors \<Rightarrow> nat \<Rightarrow> nat \<Rightarrow> nat \<Rightarrow> rng \<Rightarrow> FoliageParticle list \<times> rng" where
  "foliage_loop cols count 0 i g = ([], g)"
| "foliage_loop cols count (Suc n) i g =
     (let (p, g1) = foliage_particle cols i count g;
          (ps, g2) = foliage_loop cols count n (Suc i) g1
      in (p # ps, g2))"

text \<open>
  \<open>useMemo(create, [count])\<close>: the cell keeps the dependency and the value of the last
  computation; a render with the same dependency returns the kept value and draws nothing.
\<close>

definition useMemo ::
  "('d \<times> 'a) option \<Rightarrow> 'd \<Rightarrow> (rng \<Rightarrow> 'a \<times> rng) \<Rightarrow> rng \<Rightarrow> ('d \<times> 'a) option \<times> rng" where
  "useMemo cell dep create g =
     (case cell of
        Some (d, v) \<Rightarrow>
          if d = dep then (cell, g) else (let (v', g') = create g in (Some (dep, v'), g'))
      | None \<Rightarrow> (let (v', g') = create g in (Some (dep, v'), g')))"

text \<open>
  The memo cells of a particle component: the records, with dependency \<open>[count]\<close>, and
  the scratch object \<open>dummy\<close>, with no dependency, created on the first render only.
\<close>

record 'p Cells =
  particles_cell :: "(nat \<times> 'p list) option"
  dummy_cell :: "(unit \<times> unit) option"

definition TreeFoliage_render ::
  "FoliageColors \<Rightarrow> nat \<Rightarrow> FoliageParticle Cells \<Rightarrow> rng \<Rightarrow> FoliageParticle Cells \<times> rng" where
  "TreeFoliage_render cols count cells g =
     (let (pc, g1) = useMemo (particles_cell cells) count (foliage_loop cols count count 0) g;
          (dc, g2) = useMemo (dummy_cell cells) () new_Object3D g1
      in (\<lparr>particles_cell = pc, dummy_cell = dc\<rparr>, g2))"

definition foliage_target :: "AppMode \<Rightarrow> real \<Rightarrow> FoliageParticle \<Rightarrow> Vector3" where
  "foliage_target m time p =
     (if m = TREE then
        (let target = treePos p
         in target\<lparr>vx := vx target + sin (time * 0.5 + vy (treePos p)) * 0.05\<rparr>)
      else if m = SCATTER then
        (let target = initialPos p
         in target\<lparr>vy := vy target + sin (time * 0.5 + phase p) * 0.5\<rparr>)
      else multiplyScalar (initialPos p) 2)"

text \<open>
  One particle in one animation frame, for a mounted component (the frame callback
  returns at once while the mesh ref is unset). The instance matrix that the callback
  writes to the mesh belongs to the renderer and is not modelled; the particle records
  are the state.
\<close>

definition foliage_frame :: "AppMode \<Rightarrow> real \<Rightarrow> real \<Rightarrow> FoliageParticle \<Rightarrow> FoliageParticle" where
  "foliage_frame m time delta p =
     p\<lparr>currentPos := lerp (currentPos p) (foliage_target m time p) (delta * 3)\<rparr>"

definition TreeFoliage_useFrame ::
  "AppMode \<Rightarrow> real \<Rightarrow> real \<Rightarrow> (nat \<times> FoliageParticle list) option
     \<Rightarrow> (nat \<times> FoliageParticle list) option" where
  "TreeFoliage_useFrame m time delta cell =
     (case cell of
        None \<Rightarrow> None
      | Some (d, particles) \<Rightarrow> Some (d, map (foliage_frame m time delta) particles))"

section \<open>Particle system: ribbons\<close>

record RibbonParticle = Particle +
  angle :: real
  radius :: real
  ribbon_y :: real
  trailLength :: real

record RibbonColors =
  C_GOLD_BASE :: Color
  C_RED_BASE :: Color

definition GOLD_INTENSITY :: real where
  "GOLD_INTENSITY = 30.0"

definition RED_INTENSITY :: real where
  "RED_INTENSITY = 25.0"

definition ribbon_particle :: "RibbonColors \<Rightarrow> nat \<Rightarrow> nat \<Rightarrow> rng \<Rightarrow> RibbonParticle \<times> rng" where
  "ribbon_particle cols i count g =
     (let t = real i / real count;
          y = t * TREE_HEIGHT - (TREE_HEIGHT / 2);
          radiusAtHeight = ((TREE_HEIGHT / 2) - y) * (TREE_RADIUS / TREE_HEIGHT) + 0.6;
          isRed = (i mod 2 = 0);
          spiralFreq = 6.0;
          angleOffset = (if isRed then 0 else pi);
          angle0 = (y / TREE_HEIGHT) * pi * 2 * spiralFreq + angleOffset;
          (u0, g1) = random g;
          spread = (u0 - 0.5) * 1.5;
          finalAngle = angle0 + spread * 0.1;
          x = cos finalAngle * radiusAtHeight;
          z = sin finalAngle * radiusAtHeight;
          col = (if isRed then color_multiplyScalar (C_RED_BASE cols) RED_INTENSITY
                 else color_multiplyScalar (C_GOLD_BASE cols) GOLD_INTENSITY);
          (u1, g2) = random g1;
          trail = 0.5 + u1 * 0.5;
          (sp, g3) = getScatterPos g2;
          (u2, g4) = random g3
      in (\<lparr>initialPos = sp, treePos = vec3 x y z, currentPos = vec3 x y z, color = col,
           phase = u2 * pi * 2, angle = finalAngle, radius = radiusAtHeight, ribbon_y = y,
           trailLength = trail\<rparr>, g4))"

fun ribbon_loop ::
  "RibbonColors \<Rightarrow> nat \<Rightarrow> nat \<Rightarrow> nat \<Rightarrow> rng \<Rightarrow> RibbonParticle list \<times> rng" where
  "ribbon_loop cols count 0 i g = ([], g)"
| "ribbon_loop cols count (Suc n) i g =
     (let (p, g1) = ribbon_particle cols i count g;
          (ps, g2) = ribbon_loop cols count n (Suc i) g1
      in (p # ps, g2))"

definition TreeRibbons_render ::
  "RibbonColors \<Rightarrow> nat \<Rightarrow> RibbonParticle Cells \<Rightarrow> rng \<Rightarrow> RibbonParticle Cells \<times> rng" where
  "TreeRibbons_render cols count cells g =
     (let (pc, g1) = useMemo (particles_cell cells) count (ribbon_loop cols count count 0) g;
          (dc, g2) = useMemo (dummy_cell cells) () new_Object3D g1
      in (\<lparr>particles_cell = pc, dummy_cell = dc\<rparr>, g2))"

text \<open>The ribbons branch on \<open>mode === AppMode.TREE\<close> only; SCATTER and INSPECT share the else branch.\<close>

definition ribbon_target :: "AppMode \<Rightarrow> real \<Rightarrow> RibbonParticle \<Rightarrow> Vector3" where
  "ribbon_target m time p =
     (if m = TREE then
        (let flowSpeed = 1.0;
             activeAngle = angle p - time * flowSpeed
         in vec3 (cos activeAngle * radius p) (ribbon_y p) (sin activeAngle * radius p))
      else
        (let target = initialPos p
         in target\<lparr>vy := vy target + sin (time + phase p)\<rparr>))"

definition ribbon_frame :: "AppMode \<Rightarrow> real \<Rightarrow> real \<Rightarrow> RibbonParticle \<Rightarrow> RibbonParticle" where
  "ribbon_frame m time delta p =
     p\<lparr>currentPos := lerp (currentPos p) (ribbon_target m time p) (delta * 5)\<rparr>"

definition TreeRibbons_useFrame ::
  "AppMode \<Rightarrow> real \<Rightarrow> real \<Rightarrow> (nat \<times> RibbonParticle list) option
     \<Rightarrow> (nat \<times> RibbonParticle list) option" where
  "TreeRibbons_useFrame m time delta cell =
     (case cell of
        None \<Rightarrow> None
      | Some (d, particles) \<Rightarrow> Some (d, map (ribbon_frame m time delta) particles))"

section \<open>Particle system: photos\<close>

record SinglePhotoProps =
  photo_id :: nat
  url :: string
  photo_treePos :: Vector3
  photo_initialPos :: Vector3
  photo_mode :: AppMode
  isActive :: bool

datatype Orientation = Euler real real real | LookAt Vector3

text \<open>
  What one \<open>SinglePhoto\<close> instance keeps between frames: the refs \<open>targetPos\<close> and
  \<open>currentPos\<close> and the position, scale and orientation of its scene object.
\<close>

record SinglePhotoState =
  targetPos :: Vector3
  photo_currentPos :: Vector3
  position :: Vector3
  photo_scale :: Vector3
  orientation :: Orientation

definition SinglePhoto_mount :: "SinglePhotoProps \<Rightarrow> SinglePhotoState" where
  "SinglePhoto_mount props =
     \<lparr>targetPos = vec3 0 0 0, photo_currentPos = photo_treePos props,
      position = photo_treePos props, photo_scale = vec3 1 1 1, orientation = Euler 0 0 0\<rparr>"

text \<open>
  The frame callback of a mounted photo: the target by mode, then the damped step of the
  position, then orientation and scale. The three branches cover all of \<open>AppMode\<close>.
\<close>

definition photo_target :: "SinglePhotoProps \<Rightarrow> real \<Rightarrow> Vector3" where
  "photo_target props time =
     (let tp = photo_treePos props; ip = photo_initialPos props
      in if photo_mode props = TREE then
           (let a = time * 0.2 + real (photo_id props);
                r = sqrt ((vx tp)\<^sup>2 + (vz tp)\<^sup>2)
            in vec3 (cos a * r) (vy tp) (sin a * r))
         else if photo_mode props = SCATTER then
           vec3 (vx ip + sin (time * 0.5 + real (photo_id props)) * 0.5)
                (vy ip + cos (time * 0.3 + real (photo_id props)) * 0.5)
                (vz ip)
         else
           (if isActive props then vec3 0 0 15 else multiplyScalar ip 2.0))"

definition photo_scale_target :: "SinglePhotoProps \<Rightarrow> Vector3" where
  "photo_scale_target props =
     (if isActive props \<and> photo_mode props = INSPECT then vec3 6 6 1 else vec3 2 2 1)"

definition SinglePhoto_useFrame ::
  "SinglePhotoProps \<Rightarrow> real \<Rightarrow> real \<Rightarrow> SinglePhotoState \<Rightarrow> SinglePhotoState" where
  "SinglePhoto_useFrame props time delta st =
     (let tgt = photo_target props time;
          cur = lerp (photo_currentPos st) tgt (delta * 3)
      in st\<lparr>targetPos := tgt, photo_currentPos := cur, position := cur,
             orientation :=
               (if isActive props \<and> photo_mode props = INSPECT then Euler 0 0 0
                else LookAt (vec3 0 (vy cur) 0)),
             photo_scale := lerp (photo_scale st) (photo_scale_target props) (delta * 3)\<rparr>)"

text \<open>
  \<open>PhotoCollection\<close>: one element of \<open>photos.map\<close>. The tree position and the scatter
  position are computed in the render body, without memoisation.
\<close>

definition photo_props ::
  "AppMode \<Rightarrow> nat \<Rightarrow> nat option \<Rightarrow> nat \<Rightarrow> string \<Rightarrow> rng \<Rightarrow> SinglePhotoProps \<times> rng" where
  "photo_props m totalCount activeId i u g =
     (let (rnd, g1) = random g;
          pos = multiplyScalar (td_pos (getTreeData rnd (real (i * 10)) (real totalCount))) 1.3;
          (sp, g2) = getScatterPos g1
      in (\<lparr>photo_id = i, url = u, photo_treePos = pos, photo_initialPos = sp,
           photo_mode = m, isActive = (Some i = activeId)\<rparr>, g2))"

fun photos_map ::
  "AppMode \<Rightarrow> nat \<Rightarrow> nat option \<Rightarrow> nat \<Rightarrow> string list \<Rightarrow> rng \<Rightarrow> SinglePhotoProps list \<times> rng" where
  "photos_map m totalCount activeId i [] g = ([], g)"
| "photos_map m totalCount activeId i (u # us) g =
     (let (p, g1) = photo_props m totalCount activeId i u g;
          (ps, g2) = photos_map m totalCount activeId (Suc i) us g1
      in (p # ps, g2))"

definition PhotoCollection_render ::
  "AppMode \<Rightarrow> string list \<Rightarrow> nat option \<Rightarrow> rng \<Rightarrow> SinglePhotoProps list \<times> rng" where
  "PhotoCollection_render m phs activeId g =
     (let totalCount = 1000 + length phs
      in photos_map m totalCount activeId 0 phs g)"

text \<open>The effect with dependencies \<open>[mode, photos]\<close>: the value it passes to \<open>setActiveId\<close>.\<close>

definition PhotoCollection_effect :: "AppMode \<Rightarrow> string list \<Rightarrow> rng \<Rightarrow> nat option \<times> rng" where
  "PhotoCollection_effect m phs g =
     (if m = INSPECT \<and> length phs > 0 then
        (let (rnd, g1) = random g;
             randomIdx = nat \<lfloor>rnd * real (length phs)\<rfloor>
         in (Some randomIdx, g1))
      else (None, g))"

text \<open>
  The component between renders: the \<open>activeId\<close> cell and the dependencies the effect
  last ran with (\<open>None\<close> before the first render).
\<close>

record PhotoCollectionState =
  activeId :: "nat option"
  effect_deps :: "(AppMode \<times> string list) option"

definition PhotoCollection_initial :: PhotoCollectionState where
  "PhotoCollection_initial = \<lparr>activeId = None, effect_deps = None\<rparr>"

text \<open>
  One update of the component with props \<open>mode\<close> and \<open>photos\<close>, in the order React
  runs it: the body renders with the current \<open>activeId\<close>; then, if a dependency changed,
  the effect runs and sets \<open>activeId\<close>; if that changed the cell, the body renders again.
  The result lists the renders in order.
\<close>

definition PhotoCollection_update ::
  "AppMode \<Rightarrow> string list \<Rightarrow> PhotoCollectionState \<Rightarrow> rng
     \<Rightarrow> SinglePhotoProps list list \<times> PhotoCollectionState \<times> rng" where
  "PhotoCollection_update m phs st g =
     (let (out1, g1) = PhotoCollection_render m phs (activeId st) g
      in if effect_deps st = Some (m, phs) then ([out1], st, g1)
         else
           (let (a, g2) = PhotoCollection_effect m phs g1;
                st' = \<lparr>activeId = a, effect_deps = Some (m, phs)\<rparr>
            in if a = activeId st then ([out1], st', g2)
               else (let (out2, g3) = PhotoCollection_render m phs a g2
                     in ([out1, out2], st', g3))))"

section \<open>The scene group\<close>

text \<open>
  \<open>Experience\<close> wraps the whole particle system in a group and turns that group in its
  frame callback: toward the hand position in SCATTER mode, steadily around the vertical
  axis in TREE mode, and not at all in INSPECT mode. All particle positions are
  coordinates in this group.
\<close>

record GroupRotation =
  rotation_x :: real
  rotation_y :: real

definition Experience_useFrame :: "AppMode \<Rightarrow> Point2 \<Rightarrow> real \<Rightarrow> GroupRotation \<Rightarrow> GroupRotation" where
  "Experience_useFrame m hp delta rot =
     (if m = SCATTER then
        (let targetRotX = (pt_y hp - 0.5) * 1.0;
             targetRotY = (pt_x hp - 0.5) * 1.0
         in \<lparr>rotation_x = MathUtils_lerp (rotation_x rot) targetRotX (delta * 2),
             rotation_y = MathUtils_lerp (rotation_y rot) targetRotY (delta * 2)\<rparr>)
      else if m = TREE then
        \<lparr>rotation_x = MathUtils_lerp (rotation_x rot) 0 (delta * 2),
         rotation_y = rotation_y rot + delta * 0.1\<rparr>
      else rot)"

section \<open>The main component: mode state machine\<close>

text \<open>
  The state cells of \<open>App\<close> that the gesture handler reads or writes
  (\<open>useState\<close> cells \<open>mode\<close>, \<open>photos\<close>, \<open>handPos\<close>, \<open>debugGesture\<close>).
\<close>

record AppState =
  mode :: AppMode
  photos :: "string list"
  handPos :: Point2
  debugGesture :: Gesture

definition App_initial :: AppState where
  "App_initial =
     \<lparr>mode = TREE, photos = [], handPos = \<lparr>pt_x = 0.5, pt_y = 0.5\<rparr>, debugGesture = NONE\<rparr>"

text \<open>
  \<open>handleGestureUpdate\<close> is a callback closed over \<open>photos.length\<close>; the captured
  length is the first argument. \<open>setMode\<close> with a function argument reads the current
  mode cell.
\<close>

definition handleGestureUpdate :: "nat \<Rightarrow> HandGestureState \<Rightarrow> AppState \<Rightarrow> AppState" where
  "handleGestureUpdate photos_length state s =
     (let s1 = s\<lparr>handPos := handPosition state\<rparr>;
          s2 = s1\<lparr>debugGesture := gesture state\<rparr>
      in if gesture state = FIST then s2\<lparr>mode := TREE\<rparr>
         else if gesture state = OPEN then s2\<lparr>mode := SCATTER\<rparr>
         else if gesture state = PINCH then
           s2\<lparr>mode := (if mode s2 \<noteq> INSPECT \<and> photos_length > 0 then INSPECT else mode s2)\<rparr>
         else s2)"

definition handlePhotoUpload :: "string list \<Rightarrow> AppState \<Rightarrow> AppState" where
  "handlePhotoUpload newPhotos s = s\<lparr>photos := photos s @ newPhotos\<rparr>"

text \<open>A stream of gesture events delivered to one and the same handler.\<close>

fun feed :: "nat \<Rightarrow> HandGestureState list \<Rightarrow> AppState \<Rightarrow> AppState" where
  "feed n [] s = s"
| "feed n (ev # evs) s = feed n evs (handleGestureUpdate n ev s)"

text \<open>
  Which handler the gesture events reach. \<open>App\<close> builds a new
  \<open>handleGestureUpdate\<close> whenever \<open>photos.length\<close> changes and passes it to
  \<open>HandManager\<close> as \<open>onGestureUpdate\<close>. The prediction loop is a closure created in
  \<open>HandManager\<close>'s second effect, whose dependencies are \<open>[stream, modelLoaded]\<close>:
  the loop calls the \<open>onGestureUpdate\<close> of the render in which that effect last ran.
  \<open>loop_handler\<close> is the \<open>photos.length\<close> that handler closed over, \<open>None\<close>
  while no loop is set up.
\<close>

record Session =
  app :: AppState
  gameStarted :: bool
  cameraStream :: bool
  modelLoaded :: bool
  loop_handler :: "nat option"

definition Session_initial :: Session where
  "Session_initial =
     \<lparr>app = App_initial, gameStarted = False, cameraStream = False, modelLoaded = False,
      loop_handler = None\<rparr>"

text \<open>
  The second effect of \<open>HandManager\<close>, run when \<open>stream\<close> or \<open>modelLoaded\<close>
  changed: the clean-up of the previous run cancels the old loop; the body returns early
  unless the stream and the model are there, and otherwise sets up the loop.
\<close>

definition HandManager_effect :: "Session \<Rightarrow> Session" where
  "HandManager_effect s =
     (if \<not> cameraStream s \<or> \<not> modelLoaded s then s\<lparr>loop_handler := None\<rparr>
      else s\<lparr>loop_handler := Some (length (photos (app s)))\<rparr>)"

text \<open>\<open>handleStart\<close> when the camera is granted, and the end of \<open>initMediaPipe\<close>.\<close>

definition handleStart :: "Session \<Rightarrow> Session" where
  "handleStart s = HandManager_effect (s\<lparr>cameraStream := True, gameStarted := True\<rparr>)"

definition initMediaPipe :: "Session \<Rightarrow> Session" where
  "initMediaPipe s = HandManager_effect (s\<lparr>modelLoaded := True\<rparr>)"

text \<open>
  An upload through the overlay, which is rendered only once the game has started. The
  photos change, neither dependency of the effect does, so the loop keeps its handler.
\<close>

definition photo_upload :: "string list \<Rightarrow> Session \<Rightarrow> Session" where
  "photo_upload newPhotos s =
     (if gameStarted s then s\<lparr>app := handlePhotoUpload newPhotos (app s)\<rparr> else s)"

text \<open>A gesture event from the prediction loop.\<close>

definition deliver_gesture :: "HandGestureState \<Rightarrow> Session \<Rightarrow> Session" where
  "deliver_gesture state s =
     (case loop_handler s of
        None \<Rightarrow> s
      | Some n \<Rightarrow> s\<lparr>app := handleGestureUpdate n state (app s)\<rparr>)"

section \<open>Example inputs\<close>

text \<open>Concrete inputs at which the properties below are evaluated.\<close>

definition pinch_event :: HandGestureState where
  "pinch_event =
     \<lparr>isHandDetected = True, gesture = PINCH, handPosition = \<lparr>pt_x = 0.5, pt_y = 0.5\<rparr>\<rparr>"

definition hand :: "(real \<times> real) list \<Rightarrow> Landmark list" where
  "hand pts = map (\<lambda>(a, b). \<lparr>lm_x = a, lm_y = b, lm_z = 0\<rparr>) pts"

text \<open>
  A hand with the wrist at the origin, every base joint at distance 0.5 and every tip at
  distance 1 from it, thumb tip and index tip at the same point.
\<close>

definition open_pinched :: "Landmark list" where
  "open_pinched = hand
     [(0, 0), (0.3, 0.4), (0.3, 0.4), (0.3, 0.4), (0.6, 0.8),
      (0.3, 0.4), (0.3, 0.4), (0.3, 0.4), (0.6, 0.8),
      (0.3, 0.4), (0.3, 0.4), (0.3, 0.4), (0.6, 0.8),
      (0.3, 0.4), (0.3, 0.4), (0.3, 0.4), (0.6, 0.8),
      (0.3, 0.4), (0.3, 0.4), (0.3, 0.4), (0.6, 0.8)]"

text \<open>
  A clenched hand: no tip is farther from the wrist than 1.5 times its base joint. In
  \<open>clenched_pinched\<close> the index tip is 0.005 from the thumb tip, in \<open>clenched\<close>
  it is 0.1 from it.
\<close>

definition clenched_pinched :: "Landmark list" where
  "clenched_pinched = hand
     [(0, 0), (0.3, 0.4), (0.3, 0.4), (0.3, 0.4), (0.3, 0.4),
      (0.3, 0.4), (0.3, 0.4), (0.3, 0.4), (0.303, 0.404),
      (0.3, 0.4), (0.3, 0.4), (0.3, 0.4), (0.3, 0.4),
      (0.3, 0.4), (0.3, 0.4), (0.3, 0.4), (0.3, 0.4),
      (0.3, 0.4), (0.3, 0.4), (0.3, 0.4), (0.3, 0.4)]"

definition clenched :: "Landmark list" where
  "clenched = hand
     [(0, 0), (0.3, 0.4), (0.3, 0.4), (0.3, 0.4), (0.3, 0.4),
      (0.3, 0.4), (0.3, 0.4), (0.3, 0.4), (0.36, 0.48),
      (0.3, 0.4), (0.3, 0.4), (0.3, 0.4), (0.3, 0.4),
      (0.3, 0.4), (0.3, 0.4), (0.3, 0.4), (0.3, 0.4),
      (0.3, 0.4), (0.3, 0.4), (0.3, 0.4), (0.3, 0.4)]"

text \<open>The hand state the tracker emits when it sees no hand.\<close>

definition no_hand :: HandGestureState where
  "no_hand =
     \<lparr>isHandDetected = False, gesture = NONE, handPosition = \<lparr>pt_x = 0.5, pt_y = 0.5\<rparr>\<rparr>"

text \<open>
  A session in its usual order: the model loads, the user starts the game, then uploads
  three photos.
\<close>

definition three_photos_session :: Session where
  "three_photos_session =
     photo_upload [''a.jpg'', ''b.jpg'', ''c.jpg''] (handleStart (initMediaPipe Session_initial))"

text \<open>A generator whose draws are 0, 0.01, 0.02, ... (all in \<open>[0, 1)\<close>).\<close>

definition ramp :: rng where
  "ramp n = real (n mod 100) / 100"

text \<open>
  The ribbon created for index 1000 of 2000 when the draws are 0.5 (spread), 0.5 (trail
  length), 0.7, 0.5, 0.5 (scatter position) and 0 (phase).
\<close>

definition ribbon_draws :: rng where
  "ribbon_draws n = (if n = 2 then 0.7 else if n = 5 then 0 else 0.5)"

definition sample_ribbon_colors :: RibbonColors where
  "sample_ribbon_colors =
     \<lparr>C_GOLD_BASE = \<lparr>red = 1, green = 0.5, blue = 0\<rparr>,
      C_RED_BASE = \<lparr>red = 1, green = 0, blue = 0\<rparr>\<rparr>"

definition sample_ribbon :: RibbonParticle where
  "sample_ribbon = fst (ribbon_particle sample_ribbon_colors 1000 2000 ribbon_draws)"

text \<open>The props of the one photo of a collection in INSPECT mode, focused.\<close>

definition focused_props :: SinglePhotoProps where
  "focused_props =
     \<lparr>photo_id = 0, url = ''a.jpg'', photo_treePos = vec3 0 (-11.7) 0,
      photo_initialPos = vec3 (-24.5) (-19.2) (-14.1), photo_mode = INSPECT, isActive = True\<rparr>"

text \<open>The photo collection after its effect ran in INSPECT mode with one photo.\<close>

definition focused_state :: PhotoCollectionState where
  "focused_state = \<lparr>activeId = Some 0, effect_deps = Some (INSPECT, [''a.jpg''])\<rparr>"

section \<open>Notions the properties are stated with\<close>


text \<open>
  The photo collection is settled when its \<open>activeId\<close> is the one its effect set for the
  props it last ran with: no focus before the first effect, and none outside INSPECT.
\<close>

definition focus_settled :: "PhotoCollectionState \<Rightarrow> bool" where
  "focus_settled st =
     (case effect_deps st of
        None \<Rightarrow> activeId st = None
      | Some (m, phs) \<Rightarrow> (m \<noteq> INSPECT \<longrightarrow> activeId st = None))"

text \<open>
  A digit is within reach when its tip distance from the wrist, as the classifier
  computes it, is at most the computed 1.5 times the distance of its base joint (the
  negation of the classifier's extension test).
\<close>

definition tip_within_reach :: "Arith \<Rightarrow> Landmark list \<Rightarrow> nat \<Rightarrow> nat \<Rightarrow> bool" where
  "tip_within_reach ar landmarks tip base =
     (num_hypot ar (num_sub ar (lm_x (landmarks ! tip)) (lm_x (landmarks ! 0)))
                   (num_sub ar (lm_y (landmarks ! tip)) (lm_y (landmarks ! 0)))
      \<le> num_mul ar
           (num_hypot ar (num_sub ar (lm_x (landmarks ! base)) (lm_x (landmarks ! 0)))
                         (num_sub ar (lm_y (landmarks ! base)) (lm_y (landmarks ! 0))))
           1.5)"

definition all_digits_within_reach :: "Arith \<Rightarrow> Landmark list \<Rightarrow> bool" where
  "all_digits_within_reach ar landmarks =
     (tip_within_reach ar landmarks 4 2 \<and> tip_within_reach ar landmarks 8 5 \<and>
      tip_within_reach ar landmarks 12 9 \<and> tip_within_reach ar landmarks 16 13 \<and>
      tip_within_reach ar landmarks 20 17)"

text \<open>The thumb-tip to index-tip distance as the classifier computes it.\<close>

definition pinch_distance :: "Arith \<Rightarrow> Landmark list \<Rightarrow> real" where
  "pinch_distance ar landmarks =
     num_hypot ar (num_sub ar (lm_x (landmarks ! 8)) (lm_x (landmarks ! 4)))
                  (num_sub ar (lm_y (landmarks ! 8)) (lm_y (landmarks ! 4)))"




section \<open>Mode state machine: properties\<close>

lemma mode_after_PINCH:
  "gesture ev = PINCH \<Longrightarrow>
     mode (handleGestureUpdate n ev s) = (if mode s \<noteq> INSPECT \<and> 0 < n then INSPECT else mode s)"
  by (simp add: handleGestureUpdate_def Let_def)

lemma feed_PINCH_INSPECT:
  "\<forall>ev \<in> set evs. gesture ev = PINCH \<Longrightarrow> mode s = INSPECT \<Longrightarrow> mode (feed n evs s) = INSPECT"
proof (induction evs arbitrary: s)
  case Nil
  then show ?case by simp
next
  case (Cons ev evs)
  have "mode (handleGestureUpdate n ev s) = INSPECT"
    using Cons.prems by (simp add: mode_after_PINCH)
  then show ?case using Cons by simp
qed

text \<open>
  With the handler that belongs to the current photos, the PINCH branch does what it is
  meant to do.
\<close>

lemma fresh_handler_PINCH:
  "gesture ev = PINCH \<Longrightarrow>
     mode (handleGestureUpdate (length (photos s)) ev s)
       = (if mode s \<noteq> INSPECT \<and> 0 < length (photos s) then INSPECT else mode s)"
  by (rule mode_after_PINCH)

lemma photo_upload_keeps_handler:
  "loop_handler (photo_upload newPhotos s) = loop_handler s"
  by (simp add: photo_upload_def)

text \<open>
  C1 does not hold on the code. The prediction loop keeps the handler of the render in
  which it was set up; photos can only be uploaded after that, so the handler's photo
  count stays 0. With three photos uploaded and the mode TREE, a PINCH event leaves the
  mode at TREE.
\<close>

theorem C1_stale_photo_count:
  "length (photos (app three_photos_session)) = 3
   \<and> mode (app three_photos_session) = TREE
   \<and> loop_handler three_photos_session = Some 0
   \<and> mode (app (deliver_gesture pinch_event three_photos_session)) = TREE"
  by (simp add: three_photos_session_def photo_upload_def handleStart_def initMediaPipe_def
      HandManager_effect_def Session_initial_def App_initial_def handlePhotoUpload_def
      deliver_gesture_def handleGestureUpdate_def pinch_event_def Let_def)

text \<open>
  C2. The mode starts as TREE; an event with gesture FIST sets it to TREE and one with
  gesture OPEN sets it to SCATTER, whatever the current mode and photo count; an event
  with gesture NONE leaves it as it is.
\<close>

theorem C2_fist_open_none:
  "mode App_initial = TREE
   \<and> mode (handleGestureUpdate n (ev\<lparr>gesture := FIST\<rparr>) s) = TREE
   \<and> mode (handleGestureUpdate n (ev\<lparr>gesture := OPEN\<rparr>) s) = SCATTER
   \<and> mode (handleGestureUpdate n (ev\<lparr>gesture := NONE\<rparr>) s) = mode s"
  by (simp add: App_initial_def handleGestureUpdate_def Let_def)

section \<open>Gesture classifier: properties\<close>

lemma hypot_eqI: "0 \<le> c \<Longrightarrow> a\<^sup>2 + b\<^sup>2 = c\<^sup>2 \<Longrightarrow> hypot a b = c"
  by (simp add: hypot_def real_sqrt_unique)

lemma hypot_nonneg: "0 \<le> hypot a b"
  by (simp add: hypot_def)

lemma hypot_0_0: "hypot 0 0 = 0"
  by (simp add: hypot_def)

lemma hypot_3_4_5_tenths: "hypot (3/10) (2/5) = 1/2"
  by (rule hypot_eqI) (simp_all add: power2_eq_square)

lemma hypot_3_4_5_fifths: "hypot (3/5) (4/5) = 1"
  by (rule hypot_eqI) (simp_all add: power2_eq_square)

text \<open>
  C3. For 21 landmarks whose thumb tip (index 4) and index fingertip (index 8) are at
  2D distance below 0.05, as the classifier computes that distance, the classifier
  returns PINCH; nothing is assumed about which digits count as extended, nor about how
  the arithmetic rounds.
\<close>

theorem C3_pinch_precedes_extension:
  "length landmarks = 21 \<Longrightarrow>
   num_hypot ar (num_sub ar (lm_x (landmarks ! 8)) (lm_x (landmarks ! 4)))
                (num_sub ar (lm_y (landmarks ! 8)) (lm_y (landmarks ! 4))) < 0.05 \<Longrightarrow>
   detectGesture ar landmarks = Inr PINCH"
  by (simp add: detectGesture_def Let_def)

text \<open>The witness is a hand with all five digits extended, which still classifies as PINCH.\<close>

theorem C3_pinch_precedes_extension_witness:
  "length open_pinched = 21 \<and>
   num_hypot exact (num_sub exact (lm_x (open_pinched ! 8)) (lm_x (open_pinched ! 4)))
                   (num_sub exact (lm_y (open_pinched ! 8)) (lm_y (open_pinched ! 4))) < 0.05 \<and>
   isFingerExtended exact open_pinched 4 2 \<and> isFingerExtended exact open_pinched 8 5 \<and>
   isFingerExtended exact open_pinched 12 9 \<and> isFingerExtended exact open_pinched 16 13 \<and>
   isFingerExtended exact open_pinched 20 17 \<and>
   detectGesture exact open_pinched = Inr PINCH"
  using C3_pinch_precedes_extension [of open_pinched exact]
  by (simp add: isFingerExtended_def open_pinched_def hand_def exact_def
      hypot_3_4_5_tenths hypot_3_4_5_fifths hypot_0_0)

lemma hypot_clenched_tip: "hypot (303/1000) (101/250) = 101/200"
  by (rule hypot_eqI) (simp_all add: power2_eq_square)

lemma hypot_touching: "hypot (3/1000) (1/250) = 1/200"
  by (rule hypot_eqI) (simp_all add: power2_eq_square)

lemma hypot_reach: "hypot (9/25) (12/25) = 3/5"
  by (rule hypot_eqI) (simp_all add: power2_eq_square)

lemma hypot_apart: "hypot (3/50) (2/25) = 1/10"
  by (rule hypot_eqI) (simp_all add: power2_eq_square)

lemma isFingerExtended_iff: "isFingerExtended ar l t b \<longleftrightarrow> \<not> tip_within_reach ar l t b"
  by (auto simp: isFingerExtended_def tip_within_reach_def Let_def)

text \<open>
  C4, as stated, fails: the pinch test comes first, so a clenched hand whose thumb tip and
  index tip touch classifies as PINCH, not FIST.
\<close>

theorem C4_fist_counterexample:
  "length clenched_pinched = 21 \<and> all_digits_within_reach exact clenched_pinched \<and>
   detectGesture exact clenched_pinched = Inr PINCH \<and>
   detectGesture exact clenched_pinched \<noteq> Inr FIST"
  by (simp add: all_digits_within_reach_def tip_within_reach_def detectGesture_def
      isFingerExtended_def clenched_pinched_def hand_def exact_def hypot_3_4_5_tenths
      hypot_clenched_tip hypot_touching Let_def)

text \<open>
  C4, amended. For 21 landmarks with every digit within reach and the thumb tip and index
  fingertip not closer than 0.05, both by the distances the classifier computes, the
  classifier returns FIST. This holds for every arithmetic: where rounding makes a
  computed tip distance exceed the computed 1.5 times base distance, the digit is not
  within reach.
\<close>

theorem C4_fist_unless_pinch:
  "length landmarks = 21 \<Longrightarrow> all_digits_within_reach ar landmarks \<Longrightarrow>
   \<not> pinch_distance ar landmarks < 0.05 \<Longrightarrow>
   detectGesture ar landmarks = Inr FIST"
  by (simp add: detectGesture_def Let_def isFingerExtended_iff all_digits_within_reach_def
      pinch_distance_def)

theorem C4_fist_unless_pinch_witness:
  "length clenched = 21 \<and> all_digits_within_reach exact clenched \<and>
   \<not> pinch_distance exact clenched < 0.05 \<and>
   detectGesture exact clenched = Inr FIST"
  using C4_fist_unless_pinch [of clenched exact]
  by (simp add: all_digits_within_reach_def tip_within_reach_def pinch_distance_def
      clenched_def hand_def exact_def hypot_3_4_5_tenths hypot_reach hypot_apart)

section \<open>Tree placement: properties\<close>

text \<open>
  C8, as stated, fails: at index 0 of 100 the cone radius is 7.5, not smaller than the
  0.075 at index 99, and the height at index 0 is below the height at index 99.
\<close>

theorem C8_apex_counterexample:
  "\<not> (td_radiusAtHeight (getTreeData 0.5 0 100) < td_radiusAtHeight (getTreeData 0.5 99 100))
   \<and> vy (td_pos (getTreeData 0.5 0 100)) < vy (td_pos (getTreeData 0.5 99 100))"
  by (simp add: getTreeData_def Let_def vec3_def TREE_HEIGHT_def TREE_RADIUS_def)

text \<open>
  C8, amended. For a total of 100, index 0 is the base: its height is -9, the least of
  all indices, its cone radius is 7.5, and that is strictly larger than the radius 0.075
  at index 99, whatever the random draws are.
\<close>

theorem C8_base_at_index_0:
  "vy (td_pos (getTreeData rnd 0 100)) = -9
   \<and> vy (td_pos (getTreeData rnd 0 100)) \<le> vy (td_pos (getTreeData rnd' (real i) 100))
   \<and> td_radiusAtHeight (getTreeData rnd 0 100) = 7.5
   \<and> td_radiusAtHeight (getTreeData rnd' 99 100) = 0.075
   \<and> td_radiusAtHeight (getTreeData rnd' 99 100) < td_radiusAtHeight (getTreeData rnd 0 100)"
  by (simp add: getTreeData_def Let_def vec3_def TREE_HEIGHT_def TREE_RADIUS_def)

section \<open>Gesture tracker: properties\<close>

text \<open>
  C9, as stated, fails in one part: when the detector throws, the catch block only logs
  a warning; no hand state is passed to the callback.
\<close>

theorem C9_detector_throws_counterexample:
  "predictWebcam exact True 0 Throws tracker_initial
     = Inr (tracker_initial\<lparr>lastVideoTime := 0, warnings := 1, scheduled := True\<rparr>)
   \<and> predictWebcam exact True 0 Throws tracker_initial
     \<noteq> Inr (tracker_initial\<lparr>lastVideoTime := 0, emitted := [no_hand], scheduled := True\<rparr>)"
  by (simp add: predictWebcam_def try_body_def tracker_initial_def Let_def)

text \<open>
  C9, amended. On a processed frame (refs set, timestamp advanced) with no hand in the
  detector's result, the tracker emits exactly the no-hand state. When the detector
  throws, the run still returns normally: it records the timestamp, logs one warning,
  emits nothing, and schedules the next run, so the loop goes on with the next frame.
\<close>

theorem C9_no_hand_and_detector_failure:
  "t \<noteq> lastVideoTime st \<Longrightarrow>
     predictWebcam ar True t (Result None) st
       = Inr (st\<lparr>lastVideoTime := t, emitted := emitted st @ [no_hand], scheduled := True\<rparr>)
   \<and> predictWebcam ar True t (Result (Some [])) st
       = Inr (st\<lparr>lastVideoTime := t, emitted := emitted st @ [no_hand], scheduled := True\<rparr>)
   \<and> predictWebcam ar True t Throws st
       = Inr (st\<lparr>lastVideoTime := t, warnings := warnings st + 1, scheduled := True\<rparr>)
   \<and> tracker_loop ar ((True, t, Throws) # frames) st
       = tracker_loop ar frames
           (st\<lparr>lastVideoTime := t, warnings := warnings st + 1, scheduled := True\<rparr>)"
  by (simp add: predictWebcam_def try_body_def no_hand_def Let_def)

theorem C9_no_hand_and_detector_failure_witness:
  "(0::real) \<noteq> lastVideoTime tracker_initial
   \<and> predictWebcam exact True 0 (Result (Some [])) tracker_initial
       = Inr \<lparr>lastVideoTime = 0, emitted = [no_hand], warnings = 0, scheduled = True\<rparr>
   \<and> tracker_loop exact [(True, 0, Throws), (True, 1, Result None)] tracker_initial
       = Inr \<lparr>lastVideoTime = 1, emitted = [no_hand], warnings = 1, scheduled = True\<rparr>"
  using C9_no_hand_and_detector_failure [of 0 tracker_initial exact "[(True, 1, Result None)]"]
    C9_no_hand_and_detector_failure
      [of 1 "tracker_initial\<lparr>lastVideoTime := 0, warnings := 1, scheduled := True\<rparr>" exact "[]"]
  by (simp add: tracker_initial_def)

section \<open>Damped interpolation: properties\<close>
















section \<open>Targets in INSPECT mode: properties\<close>

lemma sample_ribbon_eq:
  "sample_ribbon =
     \<lparr>initialPos = vec3 10 0 0, treePos = vec3 4.35 0 0, currentPos = vec3 4.35 0 0,
      color = \<lparr>red = 25, green = 0, blue = 0\<rparr>, phase = 0, angle = 0, radius = 4.35,
      ribbon_y = 0, trailLength = 0.75\<rparr>"
  by (simp add: sample_ribbon_def ribbon_particle_def random_def getScatterPos_def
      ribbon_draws_def sample_ribbon_colors_def Let_def TREE_HEIGHT_def TREE_RADIUS_def
      RED_INTENSITY_def color_multiplyScalar_def vec3_def)

text \<open>
  C5, as stated, fails for ribbons: in INSPECT mode a ribbon whose scatter position is
  (10, 0, 0) is sent to (10, 0, 0) itself, not to the doubled position (20, 0, 0).
\<close>

theorem C5_ribbon_counterexample:
  "initialPos sample_ribbon = vec3 10 0 0
   \<and> ribbon_target INSPECT 0 sample_ribbon = vec3 10 0 0
   \<and> currentPos (ribbon_frame INSPECT 0 (1/5) sample_ribbon) = vec3 10 0 0
   \<and> multiplyScalar (initialPos sample_ribbon) 2 = vec3 20 0 0
   \<and> ribbon_target INSPECT 0 sample_ribbon \<noteq> multiplyScalar (initialPos sample_ribbon) 2"
  by (simp add: sample_ribbon_eq ribbon_frame_def ribbon_target_def lerp_def
      multiplyScalar_def vec3_def)

text \<open>
  C5, amended. In INSPECT mode the focused photo targets the fixed position (0, 0, 15)
  of the scene group and its scale approaches (6, 6, 1); a photo that is not focused
  targets its own scatter position scaled by 2 and its scale approaches (2, 2, 1); a
  foliage record approaches its own scatter position scaled by 2. A ribbon record
  approaches its own scatter position unscaled, moved in y by the sine of time plus
  phase, exactly as in SCATTER mode. The frame callback of the scene leaves the group's
  rotation as it is in INSPECT mode, so where (0, 0, 15) lies relative to the camera
  depends on the rotation the group had when the mode was entered.
\<close>

theorem C5_inspect_targets:
  "(photo_mode props = INSPECT \<and> isActive props \<longrightarrow>
      targetPos (SinglePhoto_useFrame props time delta st) = vec3 0 0 15
      \<and> photo_scale (SinglePhoto_useFrame props time delta st)
          = lerp (photo_scale st) (vec3 6 6 1) (delta * 3))
   \<and> (photo_mode props' = INSPECT \<and> \<not> isActive props' \<longrightarrow>
      targetPos (SinglePhoto_useFrame props' time delta st)
          = multiplyScalar (photo_initialPos props') 2
      \<and> photo_scale (SinglePhoto_useFrame props' time delta st)
          = lerp (photo_scale st) (vec3 2 2 1) (delta * 3))
   \<and> currentPos (foliage_frame INSPECT time delta p)
        = lerp (currentPos p) (multiplyScalar (initialPos p) 2) (delta * 3)
   \<and> currentPos (ribbon_frame INSPECT time delta q)
        = lerp (currentPos q)
            ((initialPos q)\<lparr>vy := vy (initialPos q) + sin (time + phase q)\<rparr>) (delta * 5)
   \<and> ribbon_target INSPECT time q = ribbon_target SCATTER time q
   \<and> Experience_useFrame INSPECT hp delta rot = rot"
  by (simp add: SinglePhoto_useFrame_def photo_target_def photo_scale_target_def Let_def
      foliage_frame_def foliage_target_def ribbon_frame_def ribbon_target_def
      Experience_useFrame_def vec3_def)

theorem C5_inspect_targets_witness:
  "photo_mode focused_props = INSPECT \<and> isActive focused_props
   \<and> targetPos (SinglePhoto_useFrame focused_props 0 (1/60) (SinglePhoto_mount focused_props))
       = vec3 0 0 15
   \<and> photo_mode (focused_props\<lparr>isActive := False\<rparr>) = INSPECT
   \<and> \<not> isActive (focused_props\<lparr>isActive := False\<rparr>)
   \<and> targetPos (SinglePhoto_useFrame (focused_props\<lparr>isActive := False\<rparr>) 0 (1/60)
         (SinglePhoto_mount focused_props))
       = vec3 (-49) (-38.4) (-28.2)"
  using C5_inspect_targets [of focused_props 0 "1/60" "SinglePhoto_mount focused_props"
      "focused_props\<lparr>isActive := False\<rparr>"]
  by (simp add: focused_props_def multiplyScalar_def vec3_def)

text \<open>
  The group does turn outside INSPECT mode: one TREE frame of a tenth of a second turns
  it by 0.01 around the vertical axis, and INSPECT frames keep that rotation.
\<close>

lemma group_stays_rotated:
  "rotation_y (Experience_useFrame INSPECT hp (1/60)
     (Experience_useFrame TREE hp (1/10) \<lparr>rotation_x = 0, rotation_y = 0\<rparr>)) = 1/100"
  by (simp add: Experience_useFrame_def MathUtils_lerp_def)

section \<open>Scatter positions: properties\<close>

text \<open>
  The scatter position is drawn from a bounded box, and the foliage and ribbon records
  keep theirs: a frame changes only \<open>currentPos\<close>, and a render with the same count
  returns the memoised records without drawing.
\<close>

lemma getScatterPos_bounds:
  assumes "unit_draws g"
  shows "- 25 \<le> vx (fst (getScatterPos g)) \<and> vx (fst (getScatterPos g)) < 25
       \<and> - 20 \<le> vy (fst (getScatterPos g)) \<and> vy (fst (getScatterPos g)) < 20
       \<and> - 15 \<le> vz (fst (getScatterPos g)) \<and> vz (fst (getScatterPos g)) < 15"
proof -
  have "0 \<le> g 0 \<and> g 0 < 1" "0 \<le> g 1 \<and> g 1 < 1" "0 \<le> g 2 \<and> g 2 < 1"
    using assms by (simp_all add: unit_draws_def)
  then show ?thesis
    by (simp add: getScatterPos_def random_def vec3_def Let_def numeral_2_eq_2)
qed

lemma foliage_frame_keeps_scatter:
  "initialPos (foliage_frame m time delta p) = initialPos p"
  by (simp add: foliage_frame_def)

lemma ribbon_frame_keeps_scatter:
  "initialPos (ribbon_frame m time delta p) = initialPos p"
  by (simp add: ribbon_frame_def)

lemma TreeFoliage_useFrame_keeps_scatter:
  "map_option (\<lambda>(d, ps). map initialPos ps) (TreeFoliage_useFrame m time delta cell)
   = map_option (\<lambda>(d, ps). map initialPos ps) cell"
  by (cases cell) (auto simp: TreeFoliage_useFrame_def foliage_frame_keeps_scatter)

lemma TreeRibbons_useFrame_keeps_scatter:
  "map_option (\<lambda>(d, ps). map initialPos ps) (TreeRibbons_useFrame m time delta cell)
   = map_option (\<lambda>(d, ps). map initialPos ps) cell"
  by (cases cell) (auto simp: TreeRibbons_useFrame_def ribbon_frame_keeps_scatter)

lemma TreeFoliage_render_memo:
  "TreeFoliage_render cols count
     \<lparr>particles_cell = Some (count, ps), dummy_cell = Some ((), ())\<rparr> g
   = (\<lparr>particles_cell = Some (count, ps), dummy_cell = Some ((), ())\<rparr>, g)"
  by (simp add: TreeFoliage_render_def useMemo_def)

lemma TreeRibbons_render_memo:
  "TreeRibbons_render cols count
     \<lparr>particles_cell = Some (count, ps), dummy_cell = Some ((), ())\<rparr> g
   = (\<lparr>particles_cell = Some (count, ps), dummy_cell = Some ((), ())\<rparr>, g)"
  by (simp add: TreeRibbons_render_def useMemo_def)

text \<open>
  C6 does not hold for photos. The photo collection calls \<open>getScatterPos()\<close> in its
  render body, so every render draws a new scatter position for every photo: two
  renders in a row, same mode, same photos, same focus, hand the one photo two
  different scatter positions.
\<close>

theorem C6_photo_scatter_redrawn:
  "map photo_initialPos (fst (PhotoCollection_render SCATTER [''a.jpg''] None ramp))
     = [vec3 (-24.5) (-19.2) (-14.1)]
   \<and> map photo_initialPos
       (fst (PhotoCollection_render SCATTER [''a.jpg''] None
              (snd (PhotoCollection_render SCATTER [''a.jpg''] None ramp))))
     = [vec3 (-22.5) (-17.6) (-12.9)]"
  by (simp add: PhotoCollection_render_def photo_props_def getScatterPos_def random_def
      ramp_def Let_def vec3_def)

section \<open>Photo focus: properties\<close>

lemma isActive_photos_map:
  "map isActive (fst (photos_map m tc a i us g)) = map (\<lambda>j. Some j = a) [i ..< i + length us]"
proof (induction us arbitrary: i g)
  case Nil
  then show ?case by simp
next
  case (Cons u us)
  obtain p g1 where p: "photo_props m tc a i u g = (p, g1)"
    by (cases "photo_props m tc a i u g")
  obtain ps g2 where ps: "photos_map m tc a (Suc i) us g1 = (ps, g2)"
    by (cases "photos_map m tc a (Suc i) us g1")
  have act: "isActive p = (Some i = a)"
    using p by (auto simp: photo_props_def Let_def split: prod.splits)
  have tl: "map isActive ps = map (\<lambda>j. Some j = a) [Suc i ..< Suc i + length us]"
    using Cons.IH [of "Suc i" g1] ps by (simp del: upt_Suc)
  have step: "[i ..< i + length (u # us)] = i # [Suc i ..< Suc i + length us]"
    by (simp add: upt_conv_Cons del: upt_Suc)
  have "fst (photos_map m tc a i (u # us) g) = p # ps"
    using p ps by simp
  then show ?case
    by (simp only: step list.map tl act)
qed

lemma filter_eq_distinct: "distinct xs \<Longrightarrow> length (filter (\<lambda>j. j = x) xs) \<le> Suc 0"
  by (induction xs) (auto simp: filter_empty_conv)

lemma at_most_one_index: "length (filter (\<lambda>j. Some j = a) [i ..< k]) \<le> Suc 0"
proof (cases a)
  case None
  then show ?thesis by simp
next
  case (Some x)
  then show ?thesis using filter_eq_distinct [of "[i ..< k]" x] by simp
qed

lemma length_filter_map: "length (filter P xs) = length (filter (\<lambda>b. b) (map P xs))"
  by (induction xs) simp_all

lemma render_at_most_one:
  "length (filter isActive (fst (PhotoCollection_render m phs a g))) \<le> 1"
proof -
  have "length (filter isActive (fst (PhotoCollection_render m phs a g)))
        = length (filter (\<lambda>b. b) (map isActive (fst (PhotoCollection_render m phs a g))))"
    by (rule length_filter_map)
  also have "\<dots> = length (filter (\<lambda>b. b) (map (\<lambda>j. Some j = a) [0 ..< 0 + length phs]))"
    by (simp only: PhotoCollection_render_def Let_def isActive_photos_map)
  also have "\<dots> = length (filter (\<lambda>j. Some j = a) [0 ..< 0 + length phs])"
    by (rule length_filter_map [symmetric])
  also have "\<dots> \<le> 1" using at_most_one_index [of a 0 "0 + length phs"] by simp
  finally show ?thesis .
qed

lemma render_none_active:
  "p \<in> set (fst (PhotoCollection_render m phs None g)) \<Longrightarrow> \<not> isActive p"
proof -
  assume "p \<in> set (fst (PhotoCollection_render m phs None g))"
  then have "isActive p \<in> set (map isActive (fst (PhotoCollection_render m phs None g)))"
    by simp
  then show ?thesis
    by (simp only: PhotoCollection_render_def Let_def isActive_photos_map) auto
qed

lemma effect_not_INSPECT: "m \<noteq> INSPECT \<Longrightarrow> PhotoCollection_effect m phs g = (None, g)"
  by (simp add: PhotoCollection_effect_def)

lemma update_renders:
  "out \<in> set (fst (PhotoCollection_update m phs st g)) \<Longrightarrow> length (filter isActive out) \<le> 1"
  using render_at_most_one
  by (auto simp: PhotoCollection_update_def Let_def split: prod.splits if_splits
      dest!: arg_cong [where f = fst])

lemma update_settles:
  assumes "focus_settled st"
  shows "focus_settled (fst (snd (PhotoCollection_update m phs st g)))"
    and "m \<noteq> INSPECT \<Longrightarrow> activeId (fst (snd (PhotoCollection_update m phs st g))) = None"
  using assms
  by (auto simp: PhotoCollection_update_def focus_settled_def Let_def effect_not_INSPECT
      split: prod.splits if_splits option.splits)

lemma update_last_render:
  assumes "focus_settled st" "m \<noteq> INSPECT"
    and "p \<in> set (last (fst (PhotoCollection_update m phs st g)))"
  shows "\<not> isActive p"
proof (cases "effect_deps st = Some (m, phs)")
  case True
  then have none: "activeId st = None"
    using assms(1,2) by (simp add: focus_settled_def)
  obtain out1 g1 where r: "PhotoCollection_render m phs None g = (out1, g1)"
    by (cases "PhotoCollection_render m phs None g")
  have "last (fst (PhotoCollection_update m phs st g)) = out1"
    using True none r by (simp add: PhotoCollection_update_def)
  then show ?thesis
    using assms(3) render_none_active [of p m phs g] r by simp
next
  case False
  obtain out1 g1 where r: "PhotoCollection_render m phs (activeId st) g = (out1, g1)"
    by (cases "PhotoCollection_render m phs (activeId st) g")
  obtain out2 g3 where r2: "PhotoCollection_render m phs None g1 = (out2, g3)"
    by (cases "PhotoCollection_render m phs None g1")
  show ?thesis
  proof (cases "activeId st")
    case None
    then have "last (fst (PhotoCollection_update m phs st g)) = out1"
      using False r assms(2) by (simp add: PhotoCollection_update_def effect_not_INSPECT)
    then show ?thesis
      using assms(3) render_none_active [of p m phs g] r None by simp
  next
    case (Some i)
    then have "last (fst (PhotoCollection_update m phs st g)) = out2"
      using False r r2 assms(2) by (simp add: PhotoCollection_update_def effect_not_INSPECT)
    then show ?thesis
      using assms(3) render_none_active [of p m phs g1] r2 by simp
  qed
qed

text \<open>
  C10, as stated, fails in its second part. After the effect chose photo 0 in INSPECT
  mode, the first render with mode TREE still passes \<open>isActive = true\<close> to that
  photo; the effect that clears the focus runs only after that render.
\<close>

theorem C10_focus_counterexample:
  "fst (snd (PhotoCollection_update INSPECT [''a.jpg''] PhotoCollection_initial ramp))
     = focused_state
   \<and> map photo_mode (hd (fst (PhotoCollection_update TREE [''a.jpg''] focused_state ramp)))
     = [TREE]
   \<and> map isActive (hd (fst (PhotoCollection_update TREE [''a.jpg''] focused_state ramp)))
     = [True]"
  by (simp add: PhotoCollection_update_def PhotoCollection_render_def PhotoCollection_effect_def
      PhotoCollection_initial_def focused_state_def photo_props_def getScatterPos_def random_def
      ramp_def Let_def)

text \<open>
  C10, amended. Every render of the photo collection marks at most one photo as active.
  The collection starts settled and every update leaves it settled; after an update with
  mode TREE or SCATTER from a settled state the focus is cleared, and the last render of
  that update marks no photo as active.
\<close>

theorem C10_focus_after_effect:
  "(\<forall>out \<in> set (fst (PhotoCollection_update m phs st g)). length (filter isActive out) \<le> 1)
   \<and> focus_settled PhotoCollection_initial
   \<and> (focus_settled st \<longrightarrow>
        focus_settled (fst (snd (PhotoCollection_update m phs st g)))
        \<and> (m \<noteq> INSPECT \<longrightarrow>
             activeId (fst (snd (PhotoCollection_update m phs st g))) = None
             \<and> (\<forall>p \<in> set (last (fst (PhotoCollection_update m phs st g))). \<not> isActive p)))"
  using update_renders [where m = m and phs = phs and st = st and g = g]
    update_settles [where m = m and phs = phs and st = st and g = g]
    update_last_render [where m = m and phs = phs and st = st and g = g]
  by (auto simp: focus_settled_def PhotoCollection_initial_def)

theorem C10_focus_after_effect_witness:
  "focus_settled focused_state \<and> TREE \<noteq> INSPECT
   \<and> activeId (fst (snd (PhotoCollection_update TREE [''a.jpg''] focused_state ramp))) = None
   \<and> length (filter isActive
        (hd (fst (PhotoCollection_update TREE [''a.jpg''] focused_state ramp)))) \<le> 1"
proof -
  have s: "focus_settled focused_state"
    by (simp add: focus_settled_def focused_state_def)
  have n: "hd (fst (PhotoCollection_update TREE [''a.jpg''] focused_state ramp))
           \<in> set (fst (PhotoCollection_update TREE [''a.jpg''] focused_state ramp))"
    by (simp add: PhotoCollection_update_def Let_def split_def PhotoCollection_effect_def
        focused_state_def)
  show ?thesis
    using s n C10_focus_after_effect [of TREE "[''a.jpg'']" focused_state ramp] by simp
qed

end
